theory Spec2Isabelle
  imports Complex_Main "HOL-Library.Sublist"
begin

section \<open>Python values\<close>

text \<open>
  The program is a Streamlit script (\<^verbatim>\<open>app.py\<close>). The numbers it handles come from
  \<^verbatim>\<open>response.json()\<close>: a JSON number without fraction or exponent is a Python
  \<^verbatim>\<open>int\<close>, any other a \<^verbatim>\<open>float\<close>. The two are kept apart because
  \<^verbatim>\<open>round(x, 2)\<close> and \<^verbatim>\<open>str(x)\<close> treat them differently. A float is
  modelled by the rational number it denotes and float arithmetic as exact (NaN and the
  infinities, which Python's JSON reader also accepts, are outside the model).
\<close>

datatype pynum = PInt int | PFloat rat

fun num_value :: "pynum \<Rightarrow> rat" where
  "num_value (PInt i) = of_int i"
| "num_value (PFloat q) = q"

text \<open>\<^verbatim>\<open>x * 100\<close>: an int stays an int, a float stays a float.\<close>

fun times100 :: "pynum \<Rightarrow> pynum" where
  "times100 (PInt i) = PInt (i * 100)"
| "times100 (PFloat q) = PFloat (q * 100)"

text \<open>Rounding to the nearest integer, a tie going to the even neighbour (Python's rule).\<close>

definition round_half_even :: "rat \<Rightarrow> int" where
  "round_half_even q =
     (let f = \<lfloor>q\<rfloor>; d = q - of_int f
      in if d < 1 / 2 then f
         else if 1 / 2 < d then f + 1
         else if even f then f else f + 1)"

text \<open>
  \<^verbatim>\<open>round(x, 2)\<close>: an int is returned unchanged (and stays an int); a float is rounded
  to two decimal places.
\<close>

fun py_round2 :: "pynum \<Rightarrow> pynum" where
  "py_round2 (PInt i) = PInt i"
| "py_round2 (PFloat q) = PFloat (of_int (round_half_even (q * 100)) / 100)"

subsection \<open>Printing numbers\<close>

fun str_nat :: "nat \<Rightarrow> string" where
  "str_nat n =
     (if n < 10 then [''0123456789'' ! n]
      else str_nat (n div 10) @ [''0123456789'' ! (n mod 10)])"

declare str_nat.simps [simp del]

definition str_int :: "int \<Rightarrow> string" where
  "str_int i = (if i < 0 then ''-'' @ str_nat (nat (- i)) else str_nat (nat i))"

text \<open>
  \<^verbatim>\<open>str(x)\<close> of a float is its shortest decimal that reads back as the same float, with
  at least one fractional digit. For the floats this program prints that way (results of
  \<^verbatim>\<open>round(x, 2)\<close>, far below \<open>10^16\<close>) that is the decimal with one or two
  fractional digits, which \<open>str_float\<close> computes from the hundredths.
\<close>

definition str_float :: "rat \<Rightarrow> string" where
  "str_float q =
     (let h = nat \<lfloor>\<bar>q\<bar> * 100\<rfloor>;
          frac = (if h mod 10 = 0 then str_nat (h mod 100 div 10)
                  else str_nat (h mod 100 div 10) @ str_nat (h mod 10))
      in (if q < 0 then ''-'' else '''') @ str_nat (h div 100) @ ''.'' @ frac)"

fun py_str :: "pynum \<Rightarrow> string" where
  "py_str (PInt i) = str_int i"
| "py_str (PFloat q) = str_float q"

text \<open>
  \<^verbatim>\<open>f"{x:.1f}"\<close>: the number with exactly one fractional digit, correctly rounded;
  Python's float formatting keeps the sign of a negative number that rounds to zero.
\<close>

definition format_1f :: "rat \<Rightarrow> string" where
  "format_1f q =
     (let t = nat (round_half_even (\<bar>q\<bar> * 10))
      in (if q < 0 then ''-'' else '''') @ str_nat (t div 10) @ ''.'' @ str_nat (t mod 10))"

section \<open>Confidence classification (app.py, lines 224--240)\<close>

text \<open>
  Characters outside ASCII in the program's string literals are written as their UTF-8
  bytes.
\<close>

definition green_circle :: string where
  "green_circle = [CHR 0xF0, CHR 0x9F, CHR 0x9F, CHR 0xA2]"

definition yellow_circle :: string where
  "yellow_circle = [CHR 0xF0, CHR 0x9F, CHR 0x9F, CHR 0xA1]"

definition red_circle :: string where
  "red_circle = [CHR 0xF0, CHR 0x9F, CHR 0x94, CHR 0xB4]"

definition get_confidence_class :: "pynum \<Rightarrow> string" where
  "get_confidence_class score =
     (if 70 \<le> num_value score then ''confidence-high''
      else if 40 \<le> num_value score then ''confidence-medium''
      else ''confidence-low'')"

definition format_confidence :: "pynum \<Rightarrow> string" where
  "format_confidence score =
     (if 70 \<le> num_value score then green_circle @ '' '' @ py_str score @ ''% (High Confidence)''
      else if 40 \<le> num_value score then yellow_circle @ '' '' @ py_str score @ ''% (Medium Confidence)''
      else red_circle @ '' '' @ py_str score @ ''% (Low Confidence)'')"

text \<open>
  The confidence bucket of the specification, read off the CSS class that
  \<open>get_confidence_class\<close> returns and off the label that \<open>format_confidence\<close> prints.
\<close>

datatype bucket = High | Medium | Low

definition class_bucket :: "string \<Rightarrow> bucket option" where
  "class_bucket c =
     (if c = ''confidence-high'' then Some High
      else if c = ''confidence-medium'' then Some Medium
      else if c = ''confidence-low'' then Some Low
      else None)"

definition label_bucket :: "string \<Rightarrow> bucket option" where
  "label_bucket s =
     (if suffix ''(High Confidence)'' s then Some High
      else if suffix ''(Medium Confidence)'' s then Some Medium
      else if suffix ''(Low Confidence)'' s then Some Low
      else None)"

section \<open>JSON values\<close>

text \<open>
  What \<^verbatim>\<open>response.json()\<close> returns. An object is the Python \<^verbatim>\<open>dict\<close> the
  parser built, as an association list with one entry per key, read with \<open>map_of\<close>.
  A \<open>char\<close> of a JSON string stands for one character of the Python string.
\<close>

datatype json =
    JNull
  | JBool bool
  | JNum pynum
  | JStr string
  | JArr "json list"
  | JObj "(string \<times> json) list"

text \<open>
  The exceptions the \<^verbatim>\<open>try\<close> statement of lines 256--326 tells apart:
  \<^verbatim>\<open>requests.exceptions.Timeout\<close>, any other
  \<^verbatim>\<open>requests.exceptions.RequestException\<close>, and any other \<^verbatim>\<open>Exception\<close>, each
  with its message \<^verbatim>\<open>str(e)\<close>. \<open>WrongType\<close> stands for the
  \<^verbatim>\<open>AttributeError\<close>, \<^verbatim>\<open>TypeError\<close>, \<^verbatim>\<open>ValueError\<close> or
  \<^verbatim>\<open>KeyError\<close> that Python raises when an operation meets a JSON value of a type
  it does not support; the program handles all of them in the same clause, and the model
  records that one was raised and where, not its class or message. \<open>OSError\<close> stands
  for the errors of Pillow and of the \<^verbatim>\<open>os\<close> module (an image that cannot be
  identified or written, a path that is in the way).
\<close>

datatype exn =
    Timeout string
  | RequestException string
  | OtherException string
  | WrongType
  | ZeroDivisionError
  | OSError

definition bind_exn :: "exn + 'a \<Rightarrow> ('a \<Rightarrow> exn + 'b) \<Rightarrow> exn + 'b" where
  "bind_exn m f = (case m of Inl e \<Rightarrow> Inl e | Inr x \<Rightarrow> f x)"

fun map_exn :: "('a \<Rightarrow> exn + 'b) \<Rightarrow> 'a list \<Rightarrow> exn + 'b list" where
  "map_exn f [] = Inr []"
| "map_exn f (x # xs) =
     (case f x of
        Inl e \<Rightarrow> Inl e
      | Inr y \<Rightarrow> (case map_exn f xs of Inl e \<Rightarrow> Inl e | Inr ys \<Rightarrow> Inr (y # ys)))"

text \<open>\<^verbatim>\<open>d.get(k, default)\<close>: only a dict has the method.\<close>

fun dict_get :: "json \<Rightarrow> string \<Rightarrow> json \<Rightarrow> exn + json" where
  "dict_get (JObj kvs) k d = Inr (case map_of kvs k of None \<Rightarrow> d | Some v \<Rightarrow> v)"
| "dict_get _ k d = Inl WrongType"

text \<open>Truth value of an object in a condition (\<^verbatim>\<open>if results:\<close>, \<^verbatim>\<open>if common\<close>).\<close>

fun truthy :: "json \<Rightarrow> bool" where
  "truthy JNull = False"
| "truthy (JBool b) = b"
| "truthy (JNum n) = (num_value n \<noteq> 0)"
| "truthy (JStr s) = (s \<noteq> [])"
| "truthy (JArr xs) = (xs \<noteq> [])"
| "truthy (JObj kvs) = (kvs \<noteq> [])"

text \<open>\<^verbatim>\<open>len(x)\<close>: defined on strings, lists and dicts.\<close>

fun py_len :: "json \<Rightarrow> exn + nat" where
  "py_len (JStr s) = Inr (length s)"
| "py_len (JArr xs) = Inr (length xs)"
| "py_len (JObj kvs) = Inr (length kvs)"
| "py_len _ = Inl WrongType"

text \<open>
  \<^verbatim>\<open>x[:n]\<close> followed by iteration, for \<open>n \<ge> 0\<close>: a list gives its first \<open>n\<close>
  elements, a string its first \<open>n\<close> characters (each a string of length one); a dict
  cannot be sliced and a number cannot be subscripted.
\<close>

fun slice_to :: "nat \<Rightarrow> json \<Rightarrow> exn + json list" where
  "slice_to n (JArr xs) = Inr (take n xs)"
| "slice_to n (JStr s) = Inr (map (\<lambda>c. JStr [c]) (take n s))"
| "slice_to n _ = Inl WrongType"

text \<open>\<^verbatim>\<open>for r in x\<close>: the elements of a list, the characters of a string, the keys of a dict.\<close>

fun py_iter :: "json \<Rightarrow> exn + json list" where
  "py_iter (JArr xs) = Inr xs"
| "py_iter (JStr s) = Inr (map (\<lambda>c. JStr [c]) s)"
| "py_iter (JObj kvs) = Inr (map (\<lambda>kv. JStr (fst kv)) kvs)"
| "py_iter _ = Inl WrongType"

text \<open>
  \<^verbatim>\<open>x * 100\<close>: a number is multiplied (\<^verbatim>\<open>True\<close> and \<^verbatim>\<open>False\<close> count as the
  ints 1 and 0), a string or a list is repeated a hundred times, \<^verbatim>\<open>None\<close> and a dict
  raise \<^verbatim>\<open>TypeError\<close>.
\<close>

fun json_times100 :: "json \<Rightarrow> exn + json" where
  "json_times100 (JNum n) = Inr (JNum (times100 n))"
| "json_times100 (JBool b) = Inr (JNum (PInt (if b then 100 else 0)))"
| "json_times100 (JStr s) = Inr (JStr (concat (replicate 100 s)))"
| "json_times100 (JArr xs) = Inr (JArr (concat (replicate 100 xs)))"
| "json_times100 _ = Inl WrongType"

text \<open>\<^verbatim>\<open>round(x, 2)\<close>: only numbers can be rounded.\<close>

fun json_round2 :: "json \<Rightarrow> exn + pynum" where
  "json_round2 (JNum n) = Inr (py_round2 n)"
| "json_round2 _ = Inl WrongType"

fun as_number :: "json \<Rightarrow> exn + pynum" where
  "as_number (JNum n) = Inr n"
| "as_number _ = Inl WrongType"

text \<open>\<^verbatim>\<open>', '.join(xs)\<close>: every item must be a string.\<close>

fun as_string :: "json \<Rightarrow> exn + string" where
  "as_string (JStr s) = Inr s"
| "as_string _ = Inl WrongType"

fun intercalate :: "string \<Rightarrow> string list \<Rightarrow> string" where
  "intercalate sep [] = []"
| "intercalate sep [s] = s"
| "intercalate sep (s # t # ts) = s @ sep @ intercalate sep (t # ts)"

definition str_join :: "string \<Rightarrow> json list \<Rightarrow> exn + string" where
  "str_join sep xs = bind_exn (map_exn as_string xs) (\<lambda>ss. Inr (intercalate sep ss))"

text \<open>
  \<^verbatim>\<open>max(xs)\<close> of a non-empty list of numbers: the first of the greatest elements.
\<close>

fun py_max :: "pynum list \<Rightarrow> exn + pynum" where
  "py_max [] = Inl WrongType"
| "py_max (x # xs) = Inr (foldl (\<lambda>m y. if num_value m < num_value y then y else m) x xs)"

section \<open>Result interpretation (app.py, lines 259--319)\<close>

text \<open>
  What the script displays is the sequence of its Streamlit calls. Each call site is a
  constructor, with the values the program interpolates into its message:
  \<^item> \<open>Success_complete\<close>: \<^verbatim>\<open>st.success("Classification Complete!")\<close>, line 264;
  \<^item> \<open>Subheader_top n\<close>: \<^verbatim>\<open>st.subheader(f"Top {n} Results:")\<close>, line 267;
  \<^item> \<open>Result_card c\<close>: the \<^verbatim>\<open>st.markdown\<close> of lines 279--293;
  \<^item> \<open>Subheader_summary\<close>: \<^verbatim>\<open>st.subheader("Analysis Summary")\<close>, line 297;
  \<^item> \<open>Metric label value\<close>: \<^verbatim>\<open>st.metric(label, value)\<close>, lines 302, 306 and 310;
  \<^item> \<open>Info_completed t\<close>: \<^verbatim>\<open>st.info(f"Analysis completed at {t}")\<close>, line 313;
  \<^item> \<open>Warning_no_matches\<close>: the \<^verbatim>\<open>st.warning\<close> of line 316;
  \<^item> \<open>Error_api status body\<close>: \<^verbatim>\<open>st.error(f"API Error {status}: {body}")\<close>, line 319;
  \<^item> \<open>Error_timeout\<close>: \<^verbatim>\<open>st.error("Request timeout. Please try again.")\<close>, line 322;
  \<^item> \<open>Error_network msg\<close>: \<^verbatim>\<open>st.error(f"Network error: {msg}")\<close>, line 324;
  \<^item> \<open>Error_unexpected e\<close>: \<^verbatim>\<open>st.error(f"Unexpected error: {str(e)}")\<close>, line 326.
\<close>

text \<open>
  The values interpolated into one result card. Name, family and genus are whatever JSON
  value the record holds there (the f-string prints it with \<^verbatim>\<open>str\<close>).
\<close>

record card =
  card_rank :: nat
  card_name :: json
  card_class :: string
  card_confidence :: string
  card_common :: string
  card_family :: json
  card_genus :: json

datatype ui_event =
    Success_complete
  | Subheader_top nat
  | Result_card card
  | Subheader_summary
  | Metric string string
  | Info_completed string
  | Warning_no_matches
  | Error_api int string
  | Error_timeout
  | Error_network string
  | Error_unexpected exn

text \<open>Line 273: \<^verbatim>\<open>round(r.get("score", 0) * 100, 2)\<close>.\<close>

definition percent_score :: "json \<Rightarrow> exn + pynum" where
  "percent_score r =
     bind_exn (dict_get r ''score'' (JNum (PInt 0))) (\<lambda>v.
     bind_exn (json_times100 v) json_round2)"

text \<open>
  Line 285: \<^verbatim>\<open>', '.join(common[:3]) if common else 'Not available'\<close>.
\<close>

definition common_names_text :: "json \<Rightarrow> exn + string" where
  "common_names_text common =
     (if truthy common then bind_exn (slice_to 3 common) (str_join '', '')
      else Inr ''Not available'')"

text \<open>
  Lines 270--293, the body of the display loop for the record \<open>r\<close> at index \<open>i\<close>. The
  statements are kept in the order of the source; the f-string is evaluated last, and the
  common-names expression is the only part of it that can raise.
\<close>

definition result_card :: "nat \<Rightarrow> json \<Rightarrow> exn + card" where
  "result_card i r =
     bind_exn (dict_get r ''species'' (JObj [])) (\<lambda>species.
     bind_exn (dict_get species ''scientificNameWithoutAuthor'' (JStr ''Unknown Species'')) (\<lambda>name.
     bind_exn (dict_get species ''commonNames'' (JArr [])) (\<lambda>common.
     bind_exn (percent_score r) (\<lambda>score.
     bind_exn (bind_exn (dict_get species ''family'' (JObj []))
        (\<lambda>f. dict_get f ''scientificNameWithoutAuthor'' (JStr ''Unknown Family''))) (\<lambda>family.
     bind_exn (bind_exn (dict_get species ''genus'' (JObj []))
        (\<lambda>g. dict_get g ''scientificNameWithoutAuthor'' (JStr ''Unknown Genus''))) (\<lambda>genus.
     bind_exn (common_names_text common) (\<lambda>common_text.
     Inr \<lparr>card_rank = i + 1, card_name = name,
          card_class = get_confidence_class score,
          card_confidence = format_confidence score,
          card_common = common_text,
          card_family = family, card_genus = genus\<rparr>)))))))"

text \<open>
  The loop of line 269 over the records to display. An exception leaves the loop; the
  cards rendered before it stay on the page. The result is the output so far and the
  exception, if one was raised.
\<close>

fun render_cards :: "nat \<Rightarrow> json list \<Rightarrow> ui_event list \<times> exn option" where
  "render_cards i [] = ([], None)"
| "render_cards i (r # rs) =
     (case result_card i r of
        Inl e \<Rightarrow> ([], Some e)
      | Inr c \<Rightarrow> (case render_cards (Suc i) rs of (evs, x) \<Rightarrow> (Result_card c # evs, x)))"

text \<open>
  Lines 305 and 309: \<^verbatim>\<open>[r.get("score", 0) * 100 for r in results]\<close>, over the whole
  of \<open>results\<close>.
\<close>

definition summary_scores :: "json \<Rightarrow> exn + json list" where
  "summary_scores results =
     bind_exn (py_iter results)
       (map_exn (\<lambda>r. bind_exn (dict_get r ''score'' (JNum (PInt 0))) json_times100))"

text \<open>
  Lines 305--306: \<^verbatim>\<open>highest_score = max([...])\<close>, printed with \<^verbatim>\<open>:.1f\<close>. When an
  element of the list is not a number (a repeated string or list), either \<^verbatim>\<open>max\<close> or
  the format raises, in both cases before the metric is displayed; the model raises at
  \<open>highest_score\<close>.
\<close>

definition highest_score :: "json \<Rightarrow> exn + pynum" where
  "highest_score results =
     bind_exn (summary_scores results) (\<lambda>vs. bind_exn (map_exn as_number vs) py_max)"

text \<open>
  Line 309: \<^verbatim>\<open>avg_score = sum([...]) / len(results)\<close>, a true division. The caller
  has checked \<^verbatim>\<open>len(results) > 0\<close>.
\<close>

definition avg_score :: "json \<Rightarrow> exn + rat" where
  "avg_score results =
     bind_exn (summary_scores results) (\<lambda>vs.
     bind_exn (map_exn as_number vs) (\<lambda>ns.
     bind_exn (py_len results) (\<lambda>n.
       if n = 0 then Inl ZeroDivisionError
       else Inr (sum_list (map num_value ns) / of_nat n))))"

text \<open>Lines 296--313, entered when \<open>show_details\<close> is set. \<open>now\<close> is the printed clock.\<close>

definition analysis_summary :: "string \<Rightarrow> json \<Rightarrow> ui_event list \<times> exn option" where
  "analysis_summary now results =
     (case py_len results of
        Inl e \<Rightarrow> ([], Some e)
      | Inr n \<Rightarrow>
          if 0 < n then
            (case highest_score results of
               Inl e \<Rightarrow> ([Subheader_summary, Metric ''Total Matches'' (str_nat n)], Some e)
             | Inr hi \<Rightarrow>
                 (case avg_score results of
                    Inl e \<Rightarrow>
                      ([Subheader_summary, Metric ''Total Matches'' (str_nat n),
                        Metric ''Best Match'' (format_1f (num_value hi) @ ''%'')], Some e)
                  | Inr av \<Rightarrow>
                      ([Subheader_summary, Metric ''Total Matches'' (str_nat n),
                        Metric ''Best Match'' (format_1f (num_value hi) @ ''%''),
                        Metric ''Average Confidence'' (format_1f av @ ''%''),
                        Info_completed now], None)))
          else ([], None))"

text \<open>
  The two sidebar settings (lines 165--166) and the clock. \<open>max_results\<close> comes from a
  slider over 1..10, so it is never negative.
\<close>

record settings =
  max_results :: nat
  show_details :: bool
  clock :: string

text \<open>Lines 262--316: the displays for a response with status 200 whose body parsed to \<open>result\<close>.\<close>

definition show_results :: "settings \<Rightarrow> json \<Rightarrow> ui_event list \<times> exn option" where
  "show_results cfg result =
     (case dict_get result ''results'' (JArr []) of
        Inl e \<Rightarrow> ([], Some e)
      | Inr results \<Rightarrow>
          if truthy results then
            (case py_len results of
               Inl e \<Rightarrow> ([Success_complete], Some e)
             | Inr n \<Rightarrow>
                 (case slice_to (max_results cfg) results of
                    Inl e \<Rightarrow> ([Success_complete, Subheader_top (min n (max_results cfg))], Some e)
                  | Inr shown \<Rightarrow>
                      (case render_cards 0 shown of
                         (cards, Some e) \<Rightarrow>
                           ([Success_complete, Subheader_top (min n (max_results cfg))] @ cards,
                            Some e)
                       | (cards, None) \<Rightarrow>
                           if show_details cfg then
                             (case analysis_summary (clock cfg) results of
                                (evs, x) \<Rightarrow>
                                  ([Success_complete, Subheader_top (min n (max_results cfg))]
                                     @ cards @ evs, x))
                           else
                             ([Success_complete, Subheader_top (min n (max_results cfg))] @ cards,
                              None))))
          else ([Warning_no_matches], None))"

text \<open>
  What \<^verbatim>\<open>requests.post\<close> gives back: a response (its status code, its body text, and
  what \<^verbatim>\<open>response.json()\<close> would return or raise), or an exception.
\<close>

record response =
  status_code :: int
  body_text :: string
  body_json :: "exn + json"

datatype post_result = Returned response | Raised exn

text \<open>Lines 259--319, the body of the \<^verbatim>\<open>try\<close> after the request.\<close>

definition try_body :: "settings \<Rightarrow> response \<Rightarrow> ui_event list \<times> exn option" where
  "try_body cfg resp =
     (if status_code resp = 200 then
        (case body_json resp of
           Inl e \<Rightarrow> ([], Some e)
         | Inr result \<Rightarrow> show_results cfg result)
      else ([Error_api (status_code resp) (body_text resp)], None))"

text \<open>Lines 321--326, the \<^verbatim>\<open>except\<close> clauses in their order.\<close>

fun except_clause :: "exn \<Rightarrow> ui_event" where
  "except_clause (Timeout m) = Error_timeout"
| "except_clause (RequestException m) = Error_network m"
| "except_clause e = Error_unexpected e"

text \<open>Lines 256--326: everything displayed for one outcome of the request.\<close>

definition classification_output :: "settings \<Rightarrow> post_result \<Rightarrow> ui_event list" where
  "classification_output cfg r =
     (case r of
        Raised e \<Rightarrow> [except_clause e]
      | Returned resp \<Rightarrow>
          (case try_body cfg resp of
             (evs, None) \<Rightarrow> evs
           | (evs, Some e) \<Rightarrow> evs @ [except_clause e]))"

section \<open>Image normalisation (app.py, lines 213--222)\<close>

text \<open>
  A Pillow image, as far as the program looks at it: its mode and its size (width,
  height). The pixels are not modelled. An uploaded file either decodes to an image or
  \<^verbatim>\<open>Image.open\<close> raises.
\<close>

record image =
  img_mode :: string
  img_size :: "nat \<times> nat"

datatype upload = Decodable image | Undecodable

text \<open>\<^verbatim>\<open>img.convert("RGB")\<close>.\<close>

definition convert_rgb :: "image \<Rightarrow> image" where
  "convert_rgb img = img\<lparr>img_mode := ''RGB''\<rparr>"

text \<open>
  \<^verbatim>\<open>img.thumbnail((x, y), LANCZOS)\<close> of Pillow 9.1 and later (the versions that have
  \<^verbatim>\<open>Image.Resampling\<close>): the image is left alone when it fits in the box;
  otherwise one side becomes the side of the box and the other is the proportional
  length, rounded down or up to whichever whole number keeps the aspect ratio closer, and
  at least 1. Pillow computes the ratio in floating point; here it is exact.
\<close>

definition round_aspect :: "rat \<Rightarrow> (int \<Rightarrow> rat) \<Rightarrow> int" where
  "round_aspect number key =
     max (if key \<lfloor>number\<rfloor> \<le> key \<lceil>number\<rceil> then \<lfloor>number\<rfloor> else \<lceil>number\<rceil>) 1"

definition thumbnail_size :: "nat \<times> nat \<Rightarrow> nat \<times> nat \<Rightarrow> exn + (nat \<times> nat)" where
  "thumbnail_size box sz =
     (case (box, sz) of ((x, y), (w, h)) \<Rightarrow>
        if w \<le> x \<and> h \<le> y then Inr (w, h)
        else if h = 0 then Inl ZeroDivisionError
        else
          (let aspect = (of_nat w :: rat) / of_nat h
           in if aspect \<le> of_nat x / of_nat y then
                Inr (nat (round_aspect (of_nat y * aspect)
                            (\<lambda>n. \<bar>aspect - of_int n / of_nat y\<bar>)), y)
              else
                Inr (x, nat (round_aspect (of_nat x / aspect)
                               (\<lambda>n. if n = 0 then 0 else \<bar>aspect - of_nat x / of_int n\<bar>)))))"

definition thumbnail :: "nat \<times> nat \<Rightarrow> image \<Rightarrow> exn + image" where
  "thumbnail box img =
     bind_exn (thumbnail_size box (img_size img)) (\<lambda>sz. Inr (img\<lparr>img_size := sz\<rparr>))"

text \<open>The image modes that Pillow's PNG writer accepts; it raises on any other.\<close>

definition png_writable :: "string \<Rightarrow> bool" where
  "png_writable m \<longleftrightarrow>
     m \<in> set [''1'', ''L'', ''LA'', ''I'', ''I;16'', ''P'', ''RGB'', ''RGBA'']"

subsection \<open>The file system\<close>

text \<open>
  A path holds a directory, a file, or nothing. The content of a file written by
  \<^verbatim>\<open>img.save(..., format="PNG")\<close> is the PNG encoding of the image.
\<close>

datatype file_content = Png image

datatype node = Dir | File file_content

type_synonym filesystem = "string \<rightharpoonup> node"

text \<open>The directory part of a relative path: what stands before its last slash.\<close>

definition parent_dir :: "string \<Rightarrow> string" where
  "parent_dir p = rev (drop 1 (dropWhile (\<lambda>c. c \<noteq> CHR ''/'') (rev p)))"

text \<open>\<^verbatim>\<open>os.makedirs(d, exist_ok=True)\<close>, for a single path component \<open>d\<close>.\<close>

definition os_makedirs :: "string \<Rightarrow> filesystem \<Rightarrow> exn + filesystem" where
  "os_makedirs d fs =
     (case fs d of
        Some (File c) \<Rightarrow> Inl OSError
      | _ \<Rightarrow> Inr (fs(d \<mapsto> Dir)))"

text \<open>
  \<^verbatim>\<open>img.save(filename, format="PNG", optimize=True)\<close>: creates or overwrites the file.
\<close>

definition save_png :: "image \<Rightarrow> string \<Rightarrow> filesystem \<Rightarrow> exn + filesystem" where
  "save_png img filename fs =
     (if \<not> png_writable (img_mode img) then Inl OSError
      else if parent_dir filename \<noteq> [] \<and> fs (parent_dir filename) \<noteq> Some Dir then Inl OSError
      else if fs filename = Some Dir then Inl OSError
      else Inr (fs(filename \<mapsto> File (Png img))))"

text \<open>\<^verbatim>\<open>os.remove(path)\<close>.\<close>

definition os_remove :: "string \<Rightarrow> filesystem \<Rightarrow> exn + filesystem" where
  "os_remove path fs =
     (case fs path of
        Some (File c) \<Rightarrow> Inr (fs(path := None))
      | _ \<Rightarrow> Inl OSError)"

text \<open>An open file object: the path it was opened at and the content it reads.\<close>

record file_handle =
  fh_path :: string
  fh_content :: file_content

text \<open>
  \<^verbatim>\<open>process_image(uploaded_file, filename)\<close>, lines 213--222. It returns the file it
  wrote, opened for reading; the file system is passed through.
\<close>

definition process_image ::
  "upload \<Rightarrow> string \<Rightarrow> filesystem \<Rightarrow> exn + (file_handle \<times> filesystem)" where
  "process_image uploaded_file filename fs =
     (case uploaded_file of
        Undecodable \<Rightarrow> Inl OSError
      | Decodable img0 \<Rightarrow>
          (let img1 = (if img_mode img0 \<in> set [''RGBA'', ''P''] then convert_rgb img0 else img0)
           in bind_exn
                (if 1024 < fst (img_size img1) \<or> 1024 < snd (img_size img1)
                 then thumbnail (1024, 1024) img1 else Inr img1) (\<lambda>img2.
              bind_exn (save_png img2 filename fs) (\<lambda>fs'.
                Inr (\<lparr>fh_path = filename, fh_content = Png img2\<rparr>, fs')))))"

section \<open>The request (app.py, lines 242--257 and 327--338)\<close>

definition API_URL :: string where
  "API_URL = ''https://my-api.plantnet.org/v2/identify/all''"

text \<open>
  The arguments of \<^verbatim>\<open>requests.post(API_URL, files=files, params=params, timeout=30)\<close>.
  \<open>req_files\<close> is the list of multipart parts, each a form field name with a triple of file
  name, file object and content type; \<open>req_params\<close> is the query string; \<open>req_data\<close> is
  the list of plain form fields, which the call does not pass.
\<close>

record request =
  req_url :: string
  req_files :: "(string \<times> (string \<times> file_handle \<times> string)) list"
  req_params :: "(string \<times> string) list"
  req_data :: "(string \<times> string) list"
  req_timeout :: nat

text \<open>Lines 247--251: the \<open>files\<close> list, for the primary file and the optional secondary one.\<close>

definition build_files ::
  "file_handle \<Rightarrow> file_handle option \<Rightarrow> (string \<times> (string \<times> file_handle \<times> string)) list" where
  "build_files file1 file2 =
     [(''images'', (''img1.png'', file1, ''image/png''))] @
     (case file2 of
        None \<Rightarrow> []
      | Some f2 \<Rightarrow> [(''images'', (''img2.png'', f2, ''image/png''))])"

text \<open>Lines 253 and 257.\<close>

definition build_request :: "string \<Rightarrow> file_handle \<Rightarrow> file_handle option \<Rightarrow> request" where
  "build_request api_key file1 file2 =
     \<lparr>req_url = API_URL,
      req_files = build_files file1 file2,
      req_params = [(''api-key'', api_key)],
      req_data = [],
      req_timeout = 30\<rparr>"

text \<open>
  Lines 327--338, the \<^verbatim>\<open>finally\<close> block: the two removals stand in one
  \<^verbatim>\<open>try\<close> whose \<^verbatim>\<open>except\<close> passes, so a failing removal skips what follows it.
\<close>

definition cleanup :: "bool \<Rightarrow> filesystem \<Rightarrow> filesystem" where
  "cleanup has_image2 fs =
     (case os_remove ''images/img1.png'' fs of
        Inl e \<Rightarrow> fs
      | Inr fs1 \<Rightarrow>
          if has_image2 then
            (case os_remove ''images/img2.png'' fs1 of Inl e \<Rightarrow> fs1 | Inr fs2 \<Rightarrow> fs2)
          else fs1)"

text \<open>Lines 245--251: the images are processed one after the other, before the \<^verbatim>\<open>try\<close>.\<close>

definition process_uploads ::
  "upload \<Rightarrow> upload option \<Rightarrow> filesystem \<Rightarrow>
     exn + (file_handle \<times> file_handle option \<times> filesystem)" where
  "process_uploads image1 image2 fs =
     bind_exn (process_image image1 ''images/img1.png'' fs) (\<lambda>(file1, fs1).
       case image2 of
         None \<Rightarrow> Inr (file1, None, fs1)
       | Some up2 \<Rightarrow>
           bind_exn (process_image up2 ''images/img2.png'' fs1) (\<lambda>(file2, fs2).
             Inr (file1, Some file2, fs2)))"

text \<open>
  Lines 242--338, what a click on the button runs once a primary image is uploaded. The
  remote API is the function \<open>post\<close>. The result is what is displayed and the file system
  afterwards, or the exception that was raised before the \<^verbatim>\<open>try\<close> and ended the
  script run (the file system is not followed further in that case).
\<close>

definition identify ::
  "string \<Rightarrow> settings \<Rightarrow> (request \<Rightarrow> post_result) \<Rightarrow> upload \<Rightarrow> upload option \<Rightarrow>
     filesystem \<Rightarrow> exn + (ui_event list \<times> filesystem)" where
  "identify api_key cfg post image1 image2 fs =
     bind_exn (os_makedirs ''images'' fs) (\<lambda>fs0.
     bind_exn (process_uploads image1 image2 fs0) (\<lambda>(file1, file2, fs2).
       Inr (classification_output cfg (post (build_request api_key file1 file2)),
            cleanup (image2 \<noteq> None) fs2)))"

section \<open>Vocabulary of the properties\<close>

text \<open>
  The field of a JSON value at the end of a path of keys, if every key on the way is
  there.
\<close>

fun lookup_path :: "json \<Rightarrow> string list \<Rightarrow> json option" where
  "lookup_path v [] = Some v"
| "lookup_path (JObj d) (k # ks) =
     (case map_of d k of None \<Rightarrow> None | Some v \<Rightarrow> lookup_path v ks)"
| "lookup_path _ (k # ks) = None"

definition or_default :: "json option \<Rightarrow> json \<Rightarrow> json" where
  "or_default v d = (case v of None \<Rightarrow> d | Some x \<Rightarrow> x)"

fun is_object :: "json \<Rightarrow> bool" where
  "is_object (JObj d) = True"
| "is_object _ = False"

fun is_number :: "json \<Rightarrow> bool" where
  "is_number (JNum n) = True"
| "is_number _ = False"

fun is_string :: "json \<Rightarrow> bool" where
  "is_string (JStr s) = True"
| "is_string _ = False"

fun is_string_list :: "json \<Rightarrow> bool" where
  "is_string_list (JArr xs) = list_all is_string xs"
| "is_string_list _ = False"

definition absent_or :: "(json \<Rightarrow> bool) \<Rightarrow> json option \<Rightarrow> bool" where
  "absent_or P v = (case v of None \<Rightarrow> True | Some x \<Rightarrow> P x)"

text \<open>
  A partial record: a JSON object in which every field the program reads is either
  missing or of the JSON type that the remote API documents for it (the score a number,
  the species, its family and its genus objects, the common names a list of strings).
  The names themselves may be any JSON value.
\<close>

definition partial_record :: "json \<Rightarrow> bool" where
  "partial_record r \<longleftrightarrow>
     is_object r \<and>
     absent_or is_number (lookup_path r [''score'']) \<and>
     absent_or is_object (lookup_path r [''species'']) \<and>
     absent_or is_string_list (lookup_path r [''species'', ''commonNames'']) \<and>
     absent_or is_object (lookup_path r [''species'', ''family'']) \<and>
     absent_or is_object (lookup_path r [''species'', ''genus''])"

text \<open>The score of a partial record as a percentage, before any rounding; 0 when missing.\<close>

definition raw_percent :: "json \<Rightarrow> pynum" where
  "raw_percent r =
     (case lookup_path r [''score''] of Some (JNum n) \<Rightarrow> times100 n | _ \<Rightarrow> PInt 0)"

text \<open>The cards among the displays, in order, and whether a display is an error message.\<close>

fun shown_cards :: "ui_event list \<Rightarrow> card list" where
  "shown_cards [] = []"
| "shown_cards (Result_card c # evs) = c # shown_cards evs"
| "shown_cards (e # evs) = shown_cards evs"


subsection \<open>Example inputs\<close>

definition match_record :: "string \<Rightarrow> string list \<Rightarrow> string \<Rightarrow> string \<Rightarrow> rat \<Rightarrow> json" where
  "match_record name common family genus score =
     JObj [(''score'', JNum (PFloat score)),
           (''species'', JObj
              [(''scientificNameWithoutAuthor'', JStr name),
               (''commonNames'', JArr (map JStr common)),
               (''family'', JObj [(''scientificNameWithoutAuthor'', JStr family)]),
               (''genus'', JObj [(''scientificNameWithoutAuthor'', JStr genus)])])]"

definition response_200 :: "json \<Rightarrow> response" where
  "response_200 j = \<lparr>status_code = 200, body_text = [], body_json = Inr j\<rparr>"

definition settings_of :: "nat \<Rightarrow> settings" where
  "settings_of n = \<lparr>max_results = n, show_details = True, clock = ''2025-01-01 12:00:00''\<rparr>"




text \<open>A record without a \<^verbatim>\<open>score\<close> field.\<close>

definition scoreless_record :: json where
  "scoreless_record =
     JObj [(''species'', JObj [(''scientificNameWithoutAuthor'', JStr ''Acer campestre'')])]"


definition photo_rgb_800x600 :: image where
  "photo_rgb_800x600 = \<lparr>img_mode = ''RGB'', img_size = (800, 600)\<rparr>"


definition images_dir_only :: filesystem where
  "images_dir_only = Map.empty(''images'' \<mapsto> Dir)"

text \<open>A remote API that never answers in time.\<close>

definition post_times_out :: "request \<Rightarrow> post_result" where
  "post_times_out req = Raised (Timeout ''read timed out'')"

section \<open>Properties\<close>

lemma suffix_append_literal:
  "suffix xs (ys @ zs) \<longleftrightarrow> prefix (rev xs) (rev zs @ rev ys)"
  by (simp add: suffix_to_prefix)

lemma label_bucket_format_confidence:
  "label_bucket (format_confidence s) =
     Some (if 70 \<le> num_value s then High else if 40 \<le> num_value s then Medium else Low)"
  unfolding label_bucket_def format_confidence_def
  by (simp add: suffix_append_literal del: append_assoc add: append_assoc [symmetric])

lemma class_bucket_get_confidence_class:
  "class_bucket (get_confidence_class s) =
     Some (if 70 \<le> num_value s then High else if 40 \<le> num_value s then Medium else Low)"
  by (simp add: class_bucket_def get_confidence_class_def)





lemma bind_exn_simps [simp]:
  "bind_exn (Inr x) f = f x"
  "bind_exn (Inl e) f = Inl e"
  by (simp_all add: bind_exn_def)

lemma is_object_iff: "is_object x \<longleftrightarrow> (\<exists>d. x = JObj d)"
  by (cases x) auto

lemma nested_get:
  assumes "absent_or is_object (map_of sp k)"
  shows "bind_exn (dict_get (JObj sp) k (JObj [])) (\<lambda>f. dict_get f k2 dflt) =
           Inr (or_default (lookup_path (JObj sp) [k, k2]) dflt)"
proof (cases "map_of sp k")
  case None
  then show ?thesis by (simp add: bind_exn_def or_default_def)
next
  case (Some v)
  with assms obtain d where "v = JObj d"
    by (auto simp: absent_or_def is_object_iff)
  with Some show ?thesis
    by (simp add: bind_exn_def or_default_def split: option.splits)
qed

lemma map_exn_as_string:
  "list_all is_string xs \<Longrightarrow> \<exists>ss. map_exn as_string xs = Inr ss"
proof (induction xs)
  case Nil
  then show ?case by simp
next
  case (Cons x xs)
  then obtain ss where "map_exn as_string xs = Inr ss" by auto
  moreover from Cons.prems obtain s where "x = JStr s" by (cases x) auto
  ultimately show ?case by simp
qed

lemma common_names_text_ok:
  assumes "is_string_list c"
  shows "\<exists>t. common_names_text c = Inr t"
proof -
  from assms obtain xs where c: "c = JArr xs" and xs: "list_all is_string xs"
    by (cases c) auto
  from xs have "list_all is_string (take 3 xs)"
    by (auto simp: list_all_iff dest: in_set_takeD)
  then obtain ss where "map_exn as_string (take 3 xs) = Inr ss"
    using map_exn_as_string by blast
  then show ?thesis
    by (simp add: c common_names_text_def str_join_def bind_exn_def)
qed

lemma common_names_text_default: "common_names_text (JArr []) = Inr ''Not available''"
  by (simp add: common_names_text_def)

lemma percent_score_partial:
  assumes "is_object r" "absent_or is_number (lookup_path r [''score''])"
  shows "percent_score r = Inr (py_round2 (raw_percent r))"
proof -
  from assms(1) obtain d where r: "r = JObj d" by (cases r) auto
  show ?thesis
  proof (cases "map_of d ''score''")
    case None
    then show ?thesis by (simp add: r percent_score_def raw_percent_def bind_exn_def)
  next
    case (Some v)
    with assms(2) r obtain n where "v = JNum n"
      by (cases v) (auto simp: absent_or_def)
    with Some show ?thesis by (simp add: r percent_score_def raw_percent_def bind_exn_def)
  qed
qed

lemma result_card_partial:
  assumes "partial_record r"
  shows "\<exists>t. result_card i r = Inr
     \<lparr>card_rank = i + 1,
      card_name = or_default (lookup_path r [''species'', ''scientificNameWithoutAuthor''])
                    (JStr ''Unknown Species''),
      card_class = get_confidence_class (py_round2 (raw_percent r)),
      card_confidence = format_confidence (py_round2 (raw_percent r)),
      card_common = t,
      card_family = or_default
         (lookup_path r [''species'', ''family'', ''scientificNameWithoutAuthor''])
         (JStr ''Unknown Family''),
      card_genus = or_default
         (lookup_path r [''species'', ''genus'', ''scientificNameWithoutAuthor''])
         (JStr ''Unknown Genus'')\<rparr> \<and>
     common_names_text (or_default (lookup_path r [''species'', ''commonNames'']) (JArr [])) = Inr t"
proof -
  from assms obtain d where r: "r = JObj d"
    by (cases r) (auto simp: partial_record_def)
  have ps: "percent_score r = Inr (py_round2 (raw_percent r))"
    using assms by (intro percent_score_partial) (auto simp: partial_record_def)
  define sp where "sp = (case map_of d ''species'' of None \<Rightarrow> [] | Some (JObj s) \<Rightarrow> s | Some _ \<Rightarrow> [])"
  have sp: "dict_get r ''species'' (JObj []) = Inr (JObj sp)"
    using assms unfolding r partial_record_def sp_def absent_or_def
    by (auto split: option.splits json.splits)
  have look: "lookup_path r (''species'' # ks) = (if ks = [] then map_option (\<lambda>_. JObj sp) (map_of d ''species'') else lookup_path (JObj sp) ks)" for ks
    using assms unfolding r partial_record_def sp_def absent_or_def
    by (cases ks) (auto split: option.splits json.splits)
  have fam: "absent_or is_object (map_of sp ''family'')"
    and gen: "absent_or is_object (map_of sp ''genus'')"
    and com: "absent_or is_string_list (map_of sp ''commonNames'')"
    using assms unfolding partial_record_def look by (auto simp: absent_or_def split: option.splits)
  have cn: "is_string_list (or_default (map_of sp ''commonNames'') (JArr []))"
    using com by (auto simp: absent_or_def or_default_def split: option.splits)
  then obtain t where t: "common_names_text (or_default (map_of sp ''commonNames'') (JArr [])) = Inr t"
    using common_names_text_ok by blast
  note f = nested_get [OF fam, of "''scientificNameWithoutAuthor''" "JStr ''Unknown Family''"]
  note g = nested_get [OF gen, of "''scientificNameWithoutAuthor''" "JStr ''Unknown Genus''"]
  have n: "dict_get (JObj sp) ''scientificNameWithoutAuthor'' (JStr ''Unknown Species'') =
      Inr (or_default (lookup_path (JObj sp) [''scientificNameWithoutAuthor'']) (JStr ''Unknown Species''))"
    by (auto simp: or_default_def split: option.splits)
  have c: "dict_get (JObj sp) ''commonNames'' (JArr []) = Inr (or_default (map_of sp ''commonNames'') (JArr []))"
    by (auto simp: or_default_def split: option.splits)
  have c': "lookup_path (JObj sp) [''commonNames''] = map_of sp ''commonNames''"
    by (auto split: option.splits)
  show ?thesis
    unfolding result_card_def sp
    by (rule exI [of _ t]) (simp add: ps f g n c t look c' del: dict_get.simps lookup_path.simps)
qed



lemma summary_scores_partial:
  "list_all partial_record rs \<Longrightarrow>
   summary_scores (JArr rs) = Inr (map (\<lambda>r. JNum (raw_percent r)) rs)"
proof -
  have one: "bind_exn (dict_get r ''score'' (JNum (PInt 0))) json_times100 = Inr (JNum (raw_percent r))"
    if "partial_record r" for r
  proof -
    from that obtain d where r: "r = JObj d" by (auto simp: partial_record_def is_object_iff)
    show ?thesis
    proof (cases "map_of d ''score''")
      case None
      then show ?thesis by (simp add: r raw_percent_def)
    next
      case (Some v)
      with that r obtain n where "v = JNum n"
        by (cases v) (auto simp: partial_record_def absent_or_def)
      with Some show ?thesis by (simp add: r raw_percent_def)
    qed
  qed
  have "list_all partial_record rs \<Longrightarrow>
      map_exn (\<lambda>r. bind_exn (dict_get r ''score'' (JNum (PInt 0))) json_times100) rs =
      Inr (map (\<lambda>r. JNum (raw_percent r)) rs)"
    by (induction rs) (simp_all add: one)
  then show "list_all partial_record rs \<Longrightarrow> ?thesis"
    by (simp add: summary_scores_def)
qed

lemma map_exn_as_number: "map_exn as_number (map (\<lambda>r. JNum (f r)) rs) = Inr (map f rs)"
  by (induction rs) simp_all

lemma foldl_max_value:
  "num_value (foldl (\<lambda>m y. if num_value m < num_value y then y else m) a xs) =
     Max (insert (num_value a) (num_value ` set xs))"
proof (induction xs arbitrary: a)
  case Nil
  then show ?case by simp
next
  case (Cons x xs)
  have "Max (insert (num_value (if num_value a < num_value x then x else a)) (num_value ` set xs)) =
        Max (insert (num_value a) (insert (num_value x) (num_value ` set xs)))"
  proof (cases "num_value a < num_value x")
    case True
    define M where "M = Max (insert (num_value x) (num_value ` set xs))"
    have "Max (insert (num_value a) (insert (num_value x) (num_value ` set xs))) =
          max (num_value a) M"
      unfolding M_def by (rule Max_insert) simp_all
    moreover have "num_value x \<le> M"
      unfolding M_def by (rule Max_ge) simp_all
    then have "max (num_value a) M = M"
      using True by (simp add: max_def)
    ultimately have "Max (insert (num_value a) (insert (num_value x) (num_value ` set xs))) = M"
      by (rule trans)
    then show ?thesis
      unfolding M_def using True by (simp only: if_True)
  next
    case False
    define M where "M = Max (insert (num_value a) (num_value ` set xs))"
    have "Max (insert (num_value x) (insert (num_value a) (num_value ` set xs))) =
          max (num_value x) M"
      unfolding M_def by (rule Max_insert) simp_all
    moreover have "num_value a \<le> M"
      unfolding M_def by (rule Max_ge) simp_all
    then have "max (num_value x) M = M"
      using False by (simp add: max_def)
    ultimately have "Max (insert (num_value x) (insert (num_value a) (num_value ` set xs))) = M"
      by (rule trans)
    then have "Max (insert (num_value a) (insert (num_value x) (num_value ` set xs))) = M"
      by (simp only: insert_commute)
    then show ?thesis
      unfolding M_def using False by (simp only: if_False)
  qed
  with Cons.IH [of "if num_value a < num_value x then x else a"] show ?case by simp
qed

lemma highest_score_partial:
  assumes "list_all partial_record rs" "rs \<noteq> []"
  shows "\<exists>hi. highest_score (JArr rs) = Inr hi \<and>
           num_value hi = Max (set (map (\<lambda>r. num_value (raw_percent r)) rs))"
proof -
  from assms(2) obtain r rs' where rs: "rs = r # rs'" by (cases rs) auto
  have "highest_score (JArr rs) = py_max (map raw_percent rs)"
    using assms(1) by (simp add: highest_score_def summary_scores_partial map_exn_as_number)
  then show ?thesis
    by (simp add: rs foldl_max_value image_image)
qed

lemma avg_score_partial:
  assumes "list_all partial_record rs" "rs \<noteq> []"
  shows "avg_score (JArr rs) =
           Inr (sum_list (map (\<lambda>r. num_value (raw_percent r)) rs) / of_nat (length rs))"
  using assms
  by (simp add: avg_score_def summary_scores_partial map_exn_as_number comp_def)


lemma str_nat_numeral:
  "str_nat (numeral k) =
     (if numeral k < (10::nat) then [''0123456789'' ! numeral k]
      else str_nat (numeral k div 10) @ [''0123456789'' ! (numeral k mod 10)])"
  by (subst str_nat.simps) simp

lemma str_nat_0: "str_nat 0 = ''0''"
  by (subst str_nat.simps) simp

lemma str_nat_1: "str_nat (Suc 0) = ''1''" "str_nat 1 = ''1''"
  by (subst str_nat.simps, simp)+

lemmas str_nat_eval = str_nat_numeral str_nat_0 str_nat_1






lemma process_image_result:
  assumes "process_image up filename fs = Inr (h, fs')"
  shows "\<exists>img. h = \<lparr>fh_path = filename, fh_content = Png img\<rparr> \<and>
           fs' = fs(filename \<mapsto> File (Png img))"
  using assms
  by (auto simp: process_image_def bind_exn_def save_png_def Let_def
      split: upload.splits sum.splits if_splits)


lemma os_makedirs_result:
  "os_makedirs d fs = Inr fs0 \<Longrightarrow> fs0 = fs(d \<mapsto> Dir)"
  by (auto simp: os_makedirs_def split: option.splits node.splits)

lemma cleanup_one:
  "cleanup False (fs(''images/img1.png'' \<mapsto> File c)) = fs(''images/img1.png'' := None)"
  by (simp add: cleanup_def os_remove_def)

lemma cleanup_two:
  "cleanup True (fs(''images/img1.png'' \<mapsto> File c, ''images/img2.png'' \<mapsto> File c')) =
     fs(''images/img1.png'' := None, ''images/img2.png'' := None)"
  by (simp add: cleanup_def os_remove_def fun_upd_twist)

lemma identify_result:
  assumes "identify api_key cfg post image1 image2 fs = Inr (out, fs')"
  shows "\<exists>file1 file2.
           out = classification_output cfg (post (build_request api_key file1 file2)) \<and>
           (file2 = None \<longleftrightarrow> image2 = None) \<and>
           fs' = (if image2 = None
                  then (fs(''images'' \<mapsto> Dir))(''images/img1.png'' := None)
                  else (fs(''images'' \<mapsto> Dir))
                         (''images/img1.png'' := None, ''images/img2.png'' := None))"
proof -
  from assms obtain fs0 file1 file2 fs2 where
    mk: "os_makedirs ''images'' fs = Inr fs0" and
    pu: "process_uploads image1 image2 fs0 = Inr (file1, file2, fs2)" and
    out: "out = classification_output cfg (post (build_request api_key file1 file2))" and
    fs': "fs' = cleanup (image2 \<noteq> None) fs2"
    by (auto simp: identify_def bind_exn_def split: sum.splits prod.splits)
  have fs0: "fs0 = fs(''images'' \<mapsto> Dir)"
    using mk by (rule os_makedirs_result)
  show ?thesis
  proof (cases image2)
    case None
    with pu have p1: "process_image image1 ''images/img1.png'' fs0 = Inr (file1, fs2)"
      and f2: "file2 = None"
      by (auto simp: process_uploads_def bind_exn_def split: sum.splits prod.splits)
    from process_image_result [OF p1] obtain img where
      "fs2 = fs0(''images/img1.png'' \<mapsto> File (Png img))"
      by blast
    then have "fs' = fs0(''images/img1.png'' := None)"
      using fs' None by (simp add: cleanup_one)
    with out f2 None fs0 show ?thesis by auto
  next
    case (Some up2)
    with pu obtain fs1 f2 where
      p1: "process_image image1 ''images/img1.png'' fs0 = Inr (file1, fs1)" and
      p2: "process_image up2 ''images/img2.png'' fs1 = Inr (f2, fs2)" and
      f2: "file2 = Some f2"
      by (auto simp: process_uploads_def bind_exn_def split: sum.splits prod.splits)
    from process_image_result [OF p1] obtain img where
      "fs1 = fs0(''images/img1.png'' \<mapsto> File (Png img))"
      by blast
    moreover from process_image_result [OF p2] obtain img' where
      "fs2 = fs1(''images/img2.png'' \<mapsto> File (Png img'))"
      by blast
    ultimately have "fs' = fs0(''images/img1.png'' := None, ''images/img2.png'' := None)"
      using fs' Some by (simp add: cleanup_two)
    with out f2 Some fs0 show ?thesis by auto
  qed
qed






text \<open>
  C1. The confidence bucket is a total function of the percentage score with no gaps and
  no overlaps: both classification functions put every score in exactly one bucket,
  High if and only if the score is at least 70, Low if and only if it is below 40, and
  Medium if and only if it is at least 40 and below 70.
\<close>

theorem C1_confidence_bucket_total:
  "(\<exists>b. class_bucket (get_confidence_class s) = Some b \<and>
        label_bucket (format_confidence s) = Some b \<and>
        (b = High \<longleftrightarrow> 70 \<le> num_value s) \<and>
        (b = Low \<longleftrightarrow> num_value s < 40) \<and>
        (b = Medium \<longleftrightarrow> 40 \<le> num_value s \<and> num_value s < 70))"
  by (simp add: class_bucket_get_confidence_class label_bucket_format_confidence)

text \<open>
  C9. The two confidence-classification functions agree on every score:
  \<open>get_confidence_class\<close> returns the high, medium or low CSS class exactly when
  \<open>format_confidence\<close> labels the score High, Medium or Low Confidence.
\<close>

theorem C9_class_and_label_agree:
  "(get_confidence_class s = ''confidence-high'' \<longleftrightarrow>
      suffix ''(High Confidence)'' (format_confidence s)) \<and>
   (get_confidence_class s = ''confidence-medium'' \<longleftrightarrow>
      suffix ''(Medium Confidence)'' (format_confidence s)) \<and>
   (get_confidence_class s = ''confidence-low'' \<longleftrightarrow>
      suffix ''(Low Confidence)'' (format_confidence s))"
  unfolding get_confidence_class_def format_confidence_def
  by (simp add: suffix_append_literal del: append_assoc add: append_assoc [symmetric])







lemma partial_record_match_record: "partial_record (match_record n c f g s)"
  by (simp add: partial_record_def match_record_def absent_or_def list_all_iff)






lemma summary_scores_append:
  assumes "list_all partial_record rs1" "partial_record r" "list_all partial_record rs2"
  shows "summary_scores (JArr (rs1 @ r # rs2)) =
           Inr (map (\<lambda>r. JNum (raw_percent r)) rs1 @ JNum (raw_percent r) #
                map (\<lambda>r. JNum (raw_percent r)) rs2)"
  using assms summary_scores_partial [of "rs1 @ r # rs2"] by simp

text \<open>
  C10 (as amended). A record without a \<open>score\<close> field is treated as having the score 0,
  the Python int: its card prints "0%" and is in the Low bucket, and among further
  partial records it stands as 0 in the list the summary takes its maximum and its sum
  of, so it adds nothing to the sum and counts in the divisor of the average.
\<close>

theorem C10_missing_score_is_zero:
  assumes "partial_record r" and "lookup_path r [''score''] = None"
    and "list_all partial_record rs1" and "list_all partial_record rs2"
  shows "percent_score r = Inr (PInt 0) \<and>
    (\<exists>c. result_card i r = Inr c \<and> card_class c = ''confidence-low'' \<and>
           card_confidence c = red_circle @ '' 0% (Low Confidence)'') \<and>
    summary_scores (JArr (rs1 @ r # rs2)) =
           Inr (map (\<lambda>r. JNum (raw_percent r)) rs1 @ JNum (PInt 0) #
                map (\<lambda>r. JNum (raw_percent r)) rs2) \<and>
    (\<exists>hi. highest_score (JArr (rs1 @ r # rs2)) = Inr hi \<and>
           num_value hi = Max (insert 0 (set (map (\<lambda>r. num_value (raw_percent r)) (rs1 @ rs2))))) \<and>
    avg_score (JArr (rs1 @ r # rs2)) =
           Inr (sum_list (map (\<lambda>r. num_value (raw_percent r)) (rs1 @ rs2)) /
                  of_nat (length rs1 + length rs2 + 1))"
proof -
  have raw: "raw_percent r = PInt 0"
    using assms(2) by (simp add: raw_percent_def)
  have obj: "is_object r" and num: "absent_or is_number (lookup_path r [''score''])"
    using assms(1) by (simp_all add: partial_record_def)
  have 1: "percent_score r = Inr (PInt 0)"
    using percent_score_partial [OF obj num] by (simp add: raw)
  have fc: "format_confidence (PInt 0) = red_circle @ '' 0% (Low Confidence)''"
    by (simp add: format_confidence_def str_int_def str_nat_eval)
  have gc: "get_confidence_class (PInt 0) = ''confidence-low''"
    by (simp add: get_confidence_class_def)
  from result_card_partial [OF assms(1), of i]
  have 2: "\<exists>c. result_card i r = Inr c \<and> card_class c = ''confidence-low'' \<and>
           card_confidence c = red_circle @ '' 0% (Low Confidence)''"
    by (auto simp: raw fc gc)
  have all: "list_all partial_record (rs1 @ r # rs2)"
    using assms(1,3,4) by simp
  have 3: "summary_scores (JArr (rs1 @ r # rs2)) =
           Inr (map (\<lambda>r. JNum (raw_percent r)) rs1 @ JNum (PInt 0) #
                map (\<lambda>r. JNum (raw_percent r)) rs2)"
    using summary_scores_append [OF assms(3,1,4)] by (simp add: raw)
  have "Max (set (map (\<lambda>r. num_value (raw_percent r)) (rs1 @ r # rs2))) =
        Max (insert 0 (set (map (\<lambda>r. num_value (raw_percent r)) (rs1 @ rs2))))"
    by (simp add: raw Un_commute insert_commute)
  with highest_score_partial [OF all]
  have 4: "\<exists>hi. highest_score (JArr (rs1 @ r # rs2)) = Inr hi \<and>
           num_value hi = Max (insert 0 (set (map (\<lambda>r. num_value (raw_percent r)) (rs1 @ rs2))))"
    by simp
  have 5: "avg_score (JArr (rs1 @ r # rs2)) =
           Inr (sum_list (map (\<lambda>r. num_value (raw_percent r)) (rs1 @ rs2)) /
                  of_nat (length rs1 + length rs2 + 1))"
    using avg_score_partial [OF all] by (simp add: raw)
  from 1 2 3 4 5 show ?thesis by blast
qed

lemma partial_record_scoreless: "partial_record scoreless_record"
  by (simp add: partial_record_def scoreless_record_def absent_or_def)

text \<open>
  A record without score before one of score 0.5: the percentages are 0 and 50, the
  best match is 50 and the average is 25.
\<close>

theorem C10_missing_score_is_zero_witness:
  "percent_score scoreless_record = Inr (PInt 0) \<and>
   (\<exists>c. result_card 0 scoreless_record = Inr c \<and> card_class c = ''confidence-low'' \<and>
      card_confidence c = red_circle @ '' 0% (Low Confidence)'') \<and>
   summary_scores (JArr [scoreless_record, match_record ''Acer'' [] ''Sapindaceae'' ''Acer'' (1 / 2)]) =
     Inr [JNum (PInt 0), JNum (PFloat 50)] \<and>
   (\<exists>hi. highest_score
       (JArr [scoreless_record, match_record ''Acer'' [] ''Sapindaceae'' ''Acer'' (1 / 2)]) = Inr hi \<and>
      num_value hi = 50) \<and>
   avg_score (JArr [scoreless_record, match_record ''Acer'' [] ''Sapindaceae'' ''Acer'' (1 / 2)]) =
     Inr 25"
proof -
  let ?m = "match_record ''Acer'' [] ''Sapindaceae'' ''Acer'' (1 / 2)"
  have s: "lookup_path scoreless_record [''score''] = None"
    by (simp add: scoreless_record_def)
  have l: "list_all partial_record []" "list_all partial_record [?m]"
    by (simp_all add: partial_record_match_record)
  have v: "raw_percent ?m = PFloat 50"
    by (simp add: raw_percent_def match_record_def)
  note th = C10_missing_score_is_zero [OF partial_record_scoreless s l, of 0]
  show ?thesis
    using th by (simp add: v)
qed

text \<open>
  C10 as stated fails in what is displayed: for a record without score the program
  rounds the int 0, which stays an int, and the card prints "0%", not "0.0%".
\<close>

theorem C10_counterexample_prints_int_zero:
  "map card_confidence (shown_cards (classification_output (settings_of 5)
      (Returned (response_200 (JObj [(''results'', JArr [scoreless_record])]))))) =
     [red_circle @ '' 0% (Low Confidence)''] \<and>
   red_circle @ '' 0% (Low Confidence)'' \<noteq> red_circle @ '' 0.0% (Low Confidence)''"
  by (simp add: classification_output_def try_body_def response_200_def settings_of_def
      show_results_def scoreless_record_def result_card_def percent_score_def
      common_names_text_def get_confidence_class_def format_confidence_def str_int_def
      str_nat_eval analysis_summary_def highest_score_def avg_score_def summary_scores_def
      format_1f_def round_half_even_def Let_def)

lemma parent_dir_img1: "parent_dir ''images/img1.png'' = ''images''"
  by (simp add: parent_dir_def)







text \<open>
  C8 (as amended). The normaliser writes the PNG it produces to the given path of the
  file system and returns that file opened for reading. A click that gets as far as the
  request leaves the file system changed: the directory \<^verbatim>\<open>images\<close> exists
  afterwards, and the files \<^verbatim>\<open>images/img1.png\<close> (and \<^verbatim>\<open>images/img2.png\<close> when
  there is a secondary image), written before the request, are removed after it.
\<close>

theorem C8_disk_is_written:
  "(process_image up filename fs = Inr (h, fs1) \<longrightarrow>
      (\<exists>img. h = \<lparr>fh_path = filename, fh_content = Png img\<rparr> \<and>
         fs1 = fs(filename \<mapsto> File (Png img)))) \<and>
   (identify api_key cfg post image1 image2 fs = Inr (out, fs') \<longrightarrow>
      fs' = (if image2 = None
             then (fs(''images'' \<mapsto> Dir))(''images/img1.png'' := None)
             else (fs(''images'' \<mapsto> Dir))
                    (''images/img1.png'' := None, ''images/img2.png'' := None)))"
  using process_image_result [of up filename fs h fs1]
    identify_result [of api_key cfg post image1 image2 fs out fs']
  by blast

lemma process_image_rgb_800x600:
  "process_image (Decodable photo_rgb_800x600) ''images/img1.png'' images_dir_only =
     Inr (\<lparr>fh_path = ''images/img1.png'', fh_content = Png photo_rgb_800x600\<rparr>,
          images_dir_only(''images/img1.png'' \<mapsto> File (Png photo_rgb_800x600)))"
  by (simp add: process_image_def photo_rgb_800x600_def images_dir_only_def save_png_def
      png_writable_def parent_dir_img1 Let_def)

lemma identify_one_upload:
  "\<exists>out fs'. identify ''secret'' (settings_of 5) post_times_out
      (Decodable photo_rgb_800x600) None Map.empty = Inr (out, fs')"
  by (simp add: identify_def os_makedirs_def process_uploads_def process_image_def
      photo_rgb_800x600_def save_png_def png_writable_def parent_dir_def Let_def)

text \<open>One upload and an empty working directory.\<close>

theorem C8_disk_is_written_witness:
  "(\<exists>img. \<lparr>fh_path = ''images/img1.png'', fh_content = Png photo_rgb_800x600\<rparr> =
        \<lparr>fh_path = ''images/img1.png'', fh_content = Png img\<rparr> \<and>
      images_dir_only(''images/img1.png'' \<mapsto> File (Png photo_rgb_800x600)) =
        images_dir_only(''images/img1.png'' \<mapsto> File (Png img))) \<and>
   (\<exists>out fs'. identify ''secret'' (settings_of 5) post_times_out
        (Decodable photo_rgb_800x600) None Map.empty = Inr (out, fs') \<and>
      fs' = (Map.empty(''images'' \<mapsto> Dir))(''images/img1.png'' := None))"
proof -
  from identify_one_upload obtain out fs' where
    run: "identify ''secret'' (settings_of 5) post_times_out
      (Decodable photo_rgb_800x600) None Map.empty = Inr (out, fs')"
    by blast
  note th = C8_disk_is_written [of "Decodable photo_rgb_800x600" "''images/img1.png''"
      images_dir_only "\<lparr>fh_path = ''images/img1.png'', fh_content = Png photo_rgb_800x600\<rparr>"
      "images_dir_only(''images/img1.png'' \<mapsto> File (Png photo_rgb_800x600))"
      "''secret''" "settings_of 5" post_times_out "Decodable photo_rgb_800x600" None out fs']
  from th process_image_rgb_800x600 have 1:
    "\<exists>img. \<lparr>fh_path = ''images/img1.png'', fh_content = Png photo_rgb_800x600\<rparr> =
        \<lparr>fh_path = ''images/img1.png'', fh_content = Png img\<rparr> \<and>
      images_dir_only(''images/img1.png'' \<mapsto> File (Png photo_rgb_800x600)) =
        images_dir_only(''images/img1.png'' \<mapsto> File (Png img))"
    by blast
  note th' = C8_disk_is_written [of "Decodable photo_rgb_800x600" "''images/img1.png''"
      Map.empty "\<lparr>fh_path = ''images/img1.png'', fh_content = Png photo_rgb_800x600\<rparr>"
      Map.empty "''secret''" "settings_of 5" post_times_out "Decodable photo_rgb_800x600" None
      out fs']
  from th' run have 2: "fs' = (Map.empty(''images'' \<mapsto> Dir))(''images/img1.png'' := None)"
    by simp
  show ?thesis
    using 1 2 run by blast
qed

text \<open>
  C8 as stated fails: the normaliser's output is a file on disk. Before the call
  \<^verbatim>\<open>images/img1.png\<close> does not exist, after it the file is there; and a click on an
  empty working directory leaves the directory \<^verbatim>\<open>images\<close> behind.
\<close>

theorem C8_counterexample_file_on_disk:
  "images_dir_only ''images/img1.png'' = None \<and>
   map_sum id (\<lambda>(h, fs'). fs' ''images/img1.png'')
     (process_image (Decodable photo_rgb_800x600) ''images/img1.png'' images_dir_only) =
     Inr (Some (File (Png photo_rgb_800x600))) \<and>
   map_sum id (\<lambda>(out, fs'). fs' ''images'')
     (identify ''secret'' (settings_of 5) post_times_out
        (Decodable photo_rgb_800x600) None Map.empty) = Inr (Some Dir)"
  by (simp add: process_image_rgb_800x600 identify_def os_makedirs_def process_uploads_def
      process_image_def photo_rgb_800x600_def save_png_def png_writable_def parent_dir_def
      cleanup_def os_remove_def images_dir_only_def Let_def)

end
